theory Spec2Isabelle
  imports Complex_Main "HOL-Library.Word" "HOL-Library.Sublist"
begin

section \<open>Values shared by the three modules\<close>

subsection \<open>Floating-point samples\<close>

text \<open>
  A Python or numpy float is a finite value, one of the two infinities, or NaN. The
  finite values are rationals; arithmetic on them is exact here (rounding is not
  modelled). Every ordered comparison with NaN is false, as IEEE 754 has it.
\<close>

datatype float = NaN | NInf | Fin rat | PInf

fun float_lt :: "float \<Rightarrow> float \<Rightarrow> bool" where
  "float_lt (Fin a) (Fin b) = (a < b)"
| "float_lt NInf (Fin b) = True"
| "float_lt NInf PInf = True"
| "float_lt (Fin a) PInf = True"
| "float_lt _ _ = False"

fun float_le :: "float \<Rightarrow> float \<Rightarrow> bool" where
  "float_le (Fin a) (Fin b) = (a \<le> b)"
| "float_le NInf (Fin b) = True"
| "float_le NInf PInf = True"
| "float_le (Fin a) PInf = True"
| "float_le NInf NInf = True"
| "float_le PInf PInf = True"
| "float_le _ _ = False"

definition in_unit :: "float \<Rightarrow> bool" where
  "in_unit x = (float_le (Fin 0) x \<and> float_le x (Fin 1))"

subsection \<open>Exceptions\<close>

text \<open>
  An exception is its class and its message. \<open>OSError\<close> stands for the class and its
  subclasses (\<open>IOError\<close> is an alias of it in Python 3); \<open>OtherError\<close> is any class
  that no handler of the source names.
\<close>

datatype exc_class =
  ValueError | OSError | AttributeError | TypeError | OverflowError | OtherError

datatype error = Exc exc_class string

fun exc_class_of :: "error \<Rightarrow> exc_class" where
  "exc_class_of (Exc c m) = c"

fun exc_message :: "error \<Rightarrow> string" where
  "exc_message (Exc c m) = m"

subsection \<open>Shapes and their text\<close>

text \<open>
  A shape is a tuple of non-negative integers. An f-string prints it as Python prints a
  tuple: \<open>()\<close>, \<open>(3,)\<close>, \<open>(10, 12)\<close>.
\<close>

definition digit_char :: "nat \<Rightarrow> char" where
  "digit_char d = ''0123456789'' ! d"

fun str_nat :: "nat \<Rightarrow> string" where
  "str_nat n = (if n < 10 then [digit_char n] else str_nat (n div 10) @ [digit_char (n mod 10)])"

declare str_nat.simps [simp del]

fun join_comma :: "string list \<Rightarrow> string" where
  "join_comma [] = []"
| "join_comma [s] = s"
| "join_comma (s # t # ss) = s @ '', '' @ join_comma (t # ss)"

fun str_tuple :: "nat list \<Rightarrow> string" where
  "str_tuple [] = ''()''"
| "str_tuple [n] = ''('' @ str_nat n @ '',)''"
| "str_tuple ns = ''('' @ join_comma (map str_nat ns) @ '')''"

subsection \<open>Arrays in a store\<close>

text \<open>
  An \<open>ndarray\<close> object is its shape and the address of its buffer; two arrays with one
  buffer address share their samples, as an array and a view of it do. The store holds
  the buffers, in row-major order; addresses below \<open>next_free\<close> are allocated. An
  array is valid in a store when its buffer is allocated and holds one sample for every
  index of its shape. The samples of an array and a scalar compared with them have one
  float type.

  \<open>ndarray_copy\<close> is \<open>a.copy()\<close>, \<open>less_scalar\<close> is \<open>a < t\<close> (a new array of booleans,
  kept as a value), and \<open>setitem_bool\<close> is \<open>a[sel] = v\<close>, which writes into the buffer
  of \<open>a\<close>. The selection has the shape of \<open>a\<close> wherever the source uses it.
\<close>

record ndarray =
  shape :: "nat list"
  buf :: nat

record heap =
  cells :: "nat \<Rightarrow> float list"
  next_free :: nat

definition valid_array :: "heap \<Rightarrow> ndarray \<Rightarrow> bool" where
  "valid_array h a =
     (buf a < next_free h \<and> length (cells h (buf a)) = prod_list (shape a))"

definition at2 :: "heap \<Rightarrow> ndarray \<Rightarrow> nat \<Rightarrow> nat \<Rightarrow> float" where
  "at2 h a r c = cells h (buf a) ! (r * (shape a ! 1) + c)"

definition alloc :: "float list \<Rightarrow> heap \<Rightarrow> nat \<times> heap" where
  "alloc xs h =
     (next_free h, h\<lparr>cells := (cells h)(next_free h := xs), next_free := Suc (next_free h)\<rparr>)"

definition ndarray_copy :: "ndarray \<Rightarrow> heap \<Rightarrow> ndarray \<times> heap" where
  "ndarray_copy a h =
     (case alloc (cells h (buf a)) h of (p, h') \<Rightarrow> (\<lparr>shape = shape a, buf = p\<rparr>, h'))"

definition less_scalar :: "ndarray \<Rightarrow> float \<Rightarrow> heap \<Rightarrow> bool list" where
  "less_scalar a t h = map (\<lambda>v. float_lt v t) (cells h (buf a))"

definition setitem_bool :: "ndarray \<Rightarrow> bool list \<Rightarrow> float \<Rightarrow> heap \<Rightarrow> heap" where
  "setitem_bool a sel v h =
     h\<lparr>cells := (cells h)(buf a := map (\<lambda>(b, x). if b then v else x) (zip sel (cells h (buf a))))\<rparr>"

section \<open>Step 5: the masked stipple\<close>

text \<open>
  \<open>create_masked_stipple\<close> of \<open>step5_create_masked.py\<close>: the result and the store after
  the call. When the function raises, the store is the one at the \<open>raise\<close>.
\<close>

definition shape_message :: "nat list \<Rightarrow> nat list \<Rightarrow> string" where
  "shape_message s m =
     ''Images must have the same shape. '' @
     ''stipple_img shape: '' @ str_tuple s @ '', '' @
     ''mask_img shape: '' @ str_tuple m"

definition create_masked_stipple ::
  "ndarray \<Rightarrow> ndarray \<Rightarrow> float \<Rightarrow> heap \<Rightarrow> (error + ndarray) \<times> heap" where
  "create_masked_stipple stipple_img mask_img threshold h =
     (if shape stipple_img \<noteq> shape mask_img
      then (Inl (Exc ValueError (shape_message (shape stipple_img) (shape mask_img))), h)
      else
        (case ndarray_copy stipple_img h of (masked_stipple, h1) \<Rightarrow>
           (let mask_area = less_scalar mask_img threshold h1;
                h2 = setitem_bool masked_stipple mask_area (Fin 1) h1
            in (Inr masked_stipple, h2))))"

section \<open>Step 4: the block letter\<close>

subsection \<open>The platform and the imaging library\<close>

text \<open>
  \<open>create_block_letter_s\<close> calls the operating system and the imaging library. Their
  answers are not code of this repository, so they are the fields of an environment
  that the model takes as an argument: the platform name, the file-existence test, and
  every library call with the exception it may raise. \<open>'f\<close> is the library's font
  object. A drawing call gives the value of every pixel after it, by column and row:
  drawing changes samples and never the size of the image. \<open>image_new\<close> is
  \<open>Image.new('L', (width, height), color=255)\<close> and gives the exception, if any;
  \<open>ImageDraw.Draw(img)\<close> only makes the drawing context and is taken to return.
  \<open>has_textbbox\<close> is \<open>hasattr(draw, 'textbbox')\<close>. The measuring and drawing calls are
  those of the source with their arguments: the font, the text, the position, the fill.

  The letter is a list of characters, and \<open>len\<close> is its length.
\<close>

record canvas =
  cwidth :: nat
  cheight :: nat
  pixels :: "8 word list"

record 'f pil =
  system :: string
  path_exists :: "string \<Rightarrow> bool"
  image_new :: "int \<Rightarrow> int \<Rightarrow> error option"
  truetype :: "string \<Rightarrow> int \<Rightarrow> error + 'f"
  load_default :: "error + 'f"
  has_textbbox :: bool
  textbbox :: "'f \<Rightarrow> string \<Rightarrow> error + (rat \<times> rat \<times> rat \<times> rat)"
  textsize :: "'f \<Rightarrow> string \<Rightarrow> error + (rat \<times> rat)"
  draw_text :: "canvas \<Rightarrow> rat \<times> rat \<Rightarrow> string \<Rightarrow> 8 word \<Rightarrow> 'f option \<Rightarrow>
                 error + (nat \<Rightarrow> nat \<Rightarrow> 8 word)"

subsection \<open>Finding a font file\<close>

definition font_paths :: "string \<Rightarrow> string list" where
  "font_paths sys =
     (if sys = ''Windows'' then
        [''C:/Windows/Fonts/arialbd.ttf'',
         ''C:/Windows/Fonts/arial.ttf'',
         ''C:/Windows/Fonts/calibrib.ttf'',
         ''C:/Windows/Fonts/calibri.ttf'',
         ''C:/Windows/Fonts/impact.ttf'',
         ''C:/Windows/Fonts/timesbd.ttf'']
      else if sys = ''Darwin'' then
        [''/Library/Fonts/Arial Bold.ttf'',
         ''/Library/Fonts/Arial.ttf'',
         ''/Library/Fonts/Helvetica Bold.ttf'',
         ''/Library/Fonts/Helvetica.ttf'',
         ''/System/Library/Fonts/Helvetica.ttc'',
         ''/System/Library/Fonts/Supplemental/Arial Bold.ttf'']
      else
        [''/usr/share/fonts/truetype/dejavu/DejaVuSans-Bold.ttf'',
         ''/usr/share/fonts/truetype/liberation/LiberationSans-Bold.ttf'',
         ''/usr/share/fonts/truetype/liberation/LiberationSans-Regular.ttf'',
         ''/usr/share/fonts/truetype/noto/NotoSans-Bold.ttf''])"

text \<open>
  \<open>_find_font_path\<close>: \<open>font_paths\<close> is the list chosen by \<open>platform.system()\<close>, and
  \<open>first_existing\<close> is the loop over it, which returns at the first path that exists.
\<close>

fun first_existing :: "(string \<Rightarrow> bool) \<Rightarrow> string list \<Rightarrow> string option" where
  "first_existing ex [] = None"
| "first_existing ex (font_path # rest) =
     (if ex font_path then Some font_path else first_existing ex rest)"

definition find_font_path :: "'f pil \<Rightarrow> string option" where
  "find_font_path env = first_existing (path_exists env) (font_paths (system env))"

subsection \<open>Loading the font\<close>

text \<open>
  Lines 96 to 110 of \<open>create_block_letter_s\<close>. The first \<open>try\<close> (\<open>try_truetype\<close>)
  catches \<open>OSError\<close> only; the second one (\<open>or_default\<close>) catches everything.
  \<open>if font_path:\<close> is false for \<open>None\<close> and for the empty string.
\<close>

definition try_truetype :: "'f pil \<Rightarrow> int \<Rightarrow> error + 'f option" where
  "try_truetype env font_size =
     (case find_font_path env of
        None \<Rightarrow> Inr None
      | Some font_path \<Rightarrow>
          if font_path = [] then Inr None
          else
            (case truetype env font_path font_size of
               Inr f \<Rightarrow> Inr (Some f)
             | Inl e \<Rightarrow> if exc_class_of e = OSError then Inr None else Inl e))"

definition or_default :: "'f pil \<Rightarrow> 'f option \<Rightarrow> 'f option" where
  "or_default env font =
     (case font of
        Some f \<Rightarrow> Some f
      | None \<Rightarrow> (case load_default env of Inr f \<Rightarrow> Some f | Inl e \<Rightarrow> None))"

definition load_font :: "'f pil \<Rightarrow> int \<Rightarrow> error + 'f option" where
  "load_font env font_size =
     (case try_truetype env font_size of
        Inl e \<Rightarrow> Inl e
      | Inr font \<Rightarrow> Inr (or_default env font))"

subsection \<open>Measuring the text\<close>



subsection \<open>The font size\<close>




subsection \<open>The canvas\<close>




subsection \<open>The function\<close>



section \<open>The four-panel figure\<close>

text \<open>
  The figure is laid out and saved by the plotting library: \<open>plot\<close> stands for lines 72
  to 104 of the source, acting on the world outside the program (\<open>'w\<close>). The loop over
  the dictionary visits the panels in the order they were inserted.
\<close>

definition panel_message :: "string \<Rightarrow> nat list \<Rightarrow> nat list \<Rightarrow> string" where
  "panel_message name s img_shape =
     ''All images must have the same shape. '' @
     name @ ''_img shape: '' @ str_tuple s @ '', expected: '' @ str_tuple img_shape"

fun check_shapes :: "nat list \<Rightarrow> (string \<times> ndarray) list \<Rightarrow> error option" where
  "check_shapes img_shape [] = None"
| "check_shapes img_shape ((name, img) # rest) =
     (if shape img \<noteq> img_shape
      then Some (Exc ValueError (panel_message name (shape img) img_shape))
      else check_shapes img_shape rest)"

definition create_statistics_meme ::
  "(heap \<Rightarrow> ndarray list \<Rightarrow> string \<Rightarrow> int \<Rightarrow> string \<Rightarrow> 'w \<Rightarrow> (error + unit) \<times> 'w) \<Rightarrow>
   heap \<Rightarrow> ndarray \<Rightarrow> ndarray \<Rightarrow> ndarray \<Rightarrow> ndarray \<Rightarrow> string \<Rightarrow> int \<Rightarrow> string \<Rightarrow> 'w \<Rightarrow>
   (error + unit) \<times> 'w" where
  "create_statistics_meme plot h original_img stipple_img block_letter_img masked_stipple_img
      output_path dpi background_color w =
     (let img_shape = shape original_img;
          images = [(''original'', original_img),
                    (''stipple'', stipple_img),
                    (''block_letter'', block_letter_img),
                    (''masked_stipple'', masked_stipple_img)]
      in case check_shapes img_shape images of
           Some e \<Rightarrow> (Inl e, w)
         | None \<Rightarrow>
             plot h [original_img, stipple_img, block_letter_img, masked_stipple_img]
               output_path dpi background_color w)"

section \<open>What the claims speak of\<close>


text \<open>
  Font resolution in the words of the specification: each candidate is attempted in
  order, and the first one that exists and loads at the pixel size is the active font.
\<close>

fun spec_active_font :: "'f pil \<Rightarrow> int \<Rightarrow> string list \<Rightarrow> 'f option" where
  "spec_active_font env font_size [] = None"
| "spec_active_font env font_size (p # ps) =
     (if path_exists env p
      then (case truetype env p font_size of
              Inr f \<Rightarrow> Some f
            | Inl e \<Rightarrow> spec_active_font env font_size ps)
      else spec_active_font env font_size ps)"

section \<open>Concrete inputs\<close>

text \<open>A store with two buffers of four samples, and arrays over them.\<close>

definition demo_heap :: heap where
  "demo_heap =
     \<lparr>cells = (\<lambda>a. if a = 0 then [Fin 0, Fin (1/5), Fin 1, Fin 0]
                   else if a = 1 then [Fin 0, Fin (1/2), Fin 1, Fin (3/4)]
                   else []),
      next_free = 2\<rparr>"

definition demo_source :: ndarray where
  "demo_source = \<lparr>shape = [2, 2], buf = 0\<rparr>"

definition demo_mask :: ndarray where
  "demo_mask = \<lparr>shape = [2, 2], buf = 1\<rparr>"

definition ten_by_ten :: ndarray where
  "ten_by_ten = \<lparr>shape = [10, 10], buf = 0\<rparr>"

definition ten_by_twelve :: ndarray where
  "ten_by_twelve = \<lparr>shape = [10, 12], buf = 1\<rparr>"

text \<open>
  A Linux machine with none of the candidate font files. The library's default font
  is a bitmap font of cells six pixels wide and eleven high; this stand-in paints the
  whole cell of every character that is not a blank, clipped to the canvas.
\<close>

definition block_ink :: "rat \<times> rat \<Rightarrow> string \<Rightarrow> nat \<Rightarrow> nat \<Rightarrow> bool" where
  "block_ink xy s cx cy =
     (case xy of (x, y) \<Rightarrow>
        (let dx = int cx - \<lfloor>x\<rfloor>; dy = int cy - \<lfloor>y\<rfloor>
         in 0 \<le> dx \<and> 0 \<le> dy \<and> dy < 11 \<and> nat (dx div 6) < length s \<and>
            s ! nat (dx div 6) \<noteq> CHR '' ''))"

definition bitmap_only :: "string pil" where
  "bitmap_only =
     \<lparr>system = ''Linux'',
      path_exists = (\<lambda>p. False),
      image_new = (\<lambda>w h. if w < 0 \<or> h < 0
                           then Some (Exc ValueError ''Width and height must be >= 0'')
                           else None),
      truetype = (\<lambda>p n. Inl (Exc OSError ''cannot open resource'')),
      load_default = Inr ''default'',
      has_textbbox = True,
      textbbox = (\<lambda>f s. Inr (0, 0, 6 * of_nat (length s), if s = [] then 0 else 11)),
      textsize = (\<lambda>f s. Inr (6 * of_nat (length s), if s = [] then 0 else 11)),
      draw_text = (\<lambda>img xy s fill f.
         Inr (\<lambda>cx cy. if block_ink xy s cx cy then fill
                        else pixels img ! (cy * cwidth img + cx)))\<rparr>"

text \<open>
  A Linux machine where every candidate file exists, the first one cannot be read as a
  font, and every other one loads; a loaded font is named by its path.
\<close>

definition unreadable_first :: "string pil" where
  "unreadable_first =
     bitmap_only
       \<lparr>path_exists := (\<lambda>p. True),
        truetype := (\<lambda>p n.
           if p = ''/usr/share/fonts/truetype/dejavu/DejaVuSans-Bold.ttf''
           then Inl (Exc OSError ''unknown file format'')
           else Inr p)\<rparr>"

text \<open>
  The same machine with readable font files and a library that refuses a pixel size
  that is not positive.
\<close>

definition fonts_installed :: "string pil" where
  "fonts_installed =
     unreadable_first
       \<lparr>truetype := (\<lambda>p n.
           if n \<le> 0 then Inl (Exc ValueError ''font size must be greater than 0'')
           else Inr p)\<rparr>"

text \<open>A plotting library that records the file it was asked to write.\<close>

definition record_plot ::
  "heap \<Rightarrow> ndarray list \<Rightarrow> string \<Rightarrow> int \<Rightarrow> string \<Rightarrow> string list \<Rightarrow>
   (error + unit) \<times> string list" where
  "record_plot h panels output_path dpi background_color w = (Inr (), output_path # w)"

section \<open>Facts about the store\<close>


lemma masked_cells:
  assumes "shape s = shape m" and "buf m < next_free h"
  shows "create_masked_stipple s m t h =
           (Inr \<lparr>shape = shape s, buf = next_free h\<rparr>,
            h\<lparr>cells := (cells h)(next_free h :=
                  map (\<lambda>(b, x). if b then Fin 1 else x)
                    (zip (map (\<lambda>v. float_lt v t) (cells h (buf m))) (cells h (buf s)))),
              next_free := Suc (next_free h)\<rparr>)"
  using assms
  by (simp add: create_masked_stipple_def ndarray_copy_def alloc_def less_scalar_def
      setitem_bool_def Let_def)

lemma flat_index_less: "r < H \<Longrightarrow> c < W \<Longrightarrow> r * W + c < H * (W::nat)"
proof -
  assume r: "r < H" and c: "c < W"
  have "r * W + c < r * W + W" using c by simp
  also have "\<dots> = Suc r * W" by simp
  also have "\<dots> \<le> H * W" using r by (intro mult_le_mono1) simp
  finally show ?thesis .
qed

lemma masked_at2:
  assumes s: "shape s = [H, W]" and m: "shape m = [H, W]"
    and vs: "valid_array h s" and vm: "valid_array h m"
  shows "\<exists>res h'. create_masked_stipple s m t h = (Inr res, h') \<and> shape res = [H, W] \<and>
           (\<forall>r<H. \<forall>c<W.
              at2 h' res r c = (if float_lt (at2 h m r c) t then Fin 1 else at2 h s r c))"
proof -
  let ?res = "\<lparr>shape = shape s, buf = next_free h\<rparr>"
  let ?data = "map (\<lambda>(b, x). if b then Fin 1 else x)
                 (zip (map (\<lambda>v. float_lt v t) (cells h (buf m))) (cells h (buf s)))"
  let ?h' = "h\<lparr>cells := (cells h)(next_free h := ?data), next_free := Suc (next_free h)\<rparr>"
  from s m have eq: "shape s = shape m" by simp
  from vm have bm: "buf m < next_free h" by (simp add: valid_array_def)
  have run: "create_masked_stipple s m t h = (Inr ?res, ?h')"
    using masked_cells [OF eq bm] .
  from vs s have ls: "length (cells h (buf s)) = H * W" by (simp add: valid_array_def)
  from vm m have lm: "length (cells h (buf m)) = H * W" by (simp add: valid_array_def)
  have pt: "at2 ?h' ?res r c = (if float_lt (at2 h m r c) t then Fin 1 else at2 h s r c)"
    if "r < H" "c < W" for r c
  proof -
    from that have "r * W + c < H * W" by (rule flat_index_less)
    then show ?thesis using ls lm s m by (simp add: at2_def)
  qed
  have "shape ?res = [H, W]" using s by simp
  with run pt show ?thesis by blast
qed

lemma demo_arrays_valid:
  "valid_array demo_heap demo_source" "valid_array demo_heap demo_mask"
  by (simp_all add: valid_array_def demo_heap_def demo_source_def demo_mask_def)

lemma demo_arrays_shape:
  "shape demo_source = [2, 2]" "shape demo_mask = [2, 2]"
  by (simp_all add: demo_source_def demo_mask_def)

lemma demo_mask_unit: "\<forall>v \<in> set (cells demo_heap (buf demo_mask)). in_unit v"
  by (simp add: demo_heap_def demo_mask_def in_unit_def)

lemma sublist_mid: "sublist x (a @ x @ b)"
  unfolding sublist_def by blast

lemma shape_message_mentions:
  "sublist (str_tuple s) (shape_message s m)" "sublist (str_tuple m) (shape_message s m)"
proof -
  show "sublist (str_tuple s) (shape_message s m)"
    unfolding shape_message_def
    using sublist_mid [of "str_tuple s"
        "''Images must have the same shape. '' @ ''stipple_img shape: ''"
        "'', '' @ ''mask_img shape: '' @ str_tuple m"]
    by simp
  show "sublist (str_tuple m) (shape_message s m)"
    unfolding shape_message_def
    using sublist_mid [of "str_tuple m"
        "''Images must have the same shape. '' @ ''stipple_img shape: '' @ str_tuple s @
         '', '' @ ''mask_img shape: ''" "[]"]
    by simp
qed

lemma masked_mismatch:
  "shape s \<noteq> shape m \<Longrightarrow>
   create_masked_stipple s m t h = (Inl (Exc ValueError (shape_message (shape s) (shape m))), h)"
  by (simp add: create_masked_stipple_def)

lemma masked_match:
  "shape s = shape m \<Longrightarrow> \<exists>res h'. create_masked_stipple s m t h = (Inr res, h')"
  by (simp add: create_masked_stipple_def ndarray_copy_def alloc_def Let_def)

lemma str_nat_10: "str_nat 10 = ''10''"
  by (simp add: str_nat.simps digit_char_def)

lemma str_nat_12: "str_nat 12 = ''12''"
  by (simp add: str_nat.simps digit_char_def)

lemma not_lt_zero_in_unit: "in_unit v \<Longrightarrow> \<not> float_lt v (Fin 0)"
  by (cases v) (simp_all add: in_unit_def)

lemma overwrite_twice:
  "map (\<lambda>(b, x). if b then v else x) (zip bs (map (\<lambda>(b, x). if b then v else x) (zip bs xs))) =
   map (\<lambda>(b, x). if b then v else x) (zip bs xs)"
proof (induction bs arbitrary: xs)
  case Nil
  show ?case by simp
next
  case (Cons b bs)
  show ?case
  proof (cases xs)
    case Nil
    then show ?thesis by simp
  next
    case (Cons x xs')
    with Cons.IH [of xs'] show ?thesis by simp
  qed
qed

section \<open>Step 5: the claims\<close>



text \<open>
  C2. \<open>create_masked_stipple\<close> raises exactly when the two shapes differ. The exception
  is then a \<open>ValueError\<close> whose message contains the text of both shapes, and the store
  is the one the call started from: no array was made and no sample was written. No
  other exception leaves the function.
\<close>

theorem masked_stipple_shape_error:
  "((\<exists>e. fst (create_masked_stipple s m t h) = Inl e) = (shape s \<noteq> shape m)) \<and>
   (\<forall>e. fst (create_masked_stipple s m t h) = Inl e \<longrightarrow>
      e = Exc ValueError (shape_message (shape s) (shape m)) \<and>
      sublist (str_tuple (shape s)) (exc_message e) \<and>
      sublist (str_tuple (shape m)) (exc_message e) \<and>
      snd (create_masked_stipple s m t h) = h)"
proof (cases "shape s = shape m")
  case True
  from masked_match [OF True] obtain res h' where
    "create_masked_stipple s m t h = (Inr res, h')" by blast
  with True show ?thesis by simp
next
  case False
  from masked_mismatch [OF False]
  have "create_masked_stipple s m t h =
          (Inl (Exc ValueError (shape_message (shape s) (shape m))), h)" .
  with False show ?thesis by (auto simp: shape_message_mentions)
qed

theorem masked_stipple_shape_error_witness:
  "fst (create_masked_stipple ten_by_ten ten_by_twelve (Fin (1/2)) demo_heap) =
     Inl (Exc ValueError
       ''Images must have the same shape. stipple_img shape: (10, 10), mask_img shape: (10, 12)'') \<and>
   sublist ''(10, 10)''
     ''Images must have the same shape. stipple_img shape: (10, 10), mask_img shape: (10, 12)'' \<and>
   sublist ''(10, 12)''
     ''Images must have the same shape. stipple_img shape: (10, 10), mask_img shape: (10, 12)'' \<and>
   snd (create_masked_stipple ten_by_ten ten_by_twelve (Fin (1/2)) demo_heap) = demo_heap"
proof -
  let ?msg = "''Images must have the same shape. stipple_img shape: (10, 10), mask_img shape: (10, 12)''"
  have run: "fst (create_masked_stipple ten_by_ten ten_by_twelve (Fin (1/2)) demo_heap) =
     Inl (Exc ValueError ?msg)"
    by (simp add: create_masked_stipple_def ten_by_ten_def ten_by_twelve_def shape_message_def
        str_nat_10 str_nat_12)
  have t10: "str_tuple (shape ten_by_ten) = ''(10, 10)''"
    by (simp add: ten_by_ten_def str_nat_10)
  have t12: "str_tuple (shape ten_by_twelve) = ''(10, 12)''"
    by (simp add: ten_by_twelve_def str_nat_10 str_nat_12)
  from masked_stipple_shape_error [of ten_by_ten ten_by_twelve "Fin (1/2)" demo_heap] run
  have "sublist (str_tuple (shape ten_by_ten)) (exc_message (Exc ValueError ?msg)) \<and>
        sublist (str_tuple (shape ten_by_twelve)) (exc_message (Exc ValueError ?msg)) \<and>
        snd (create_masked_stipple ten_by_ten ten_by_twelve (Fin (1/2)) demo_heap) = demo_heap"
    by blast
  then have "sublist ''(10, 10)'' ?msg \<and> sublist ''(10, 12)'' ?msg \<and>
        snd (create_masked_stipple ten_by_ten ten_by_twelve (Fin (1/2)) demo_heap) = demo_heap"
    unfolding t10 t12 exc_message.simps .
  with run show ?thesis by blast
qed

text \<open>
  C6. A call on a source and a mask of one shape leaves every buffer that was allocated
  before it as it was, the buffers of the source and of the mask among them, also when
  the two arrays share a buffer; the result has a buffer of its own.
\<close>

theorem masked_stipple_frame:
  assumes eq: "shape s = shape m" and vs: "valid_array h s" and vm: "valid_array h m"
  shows "\<exists>res h'. create_masked_stipple s m t h = (Inr res, h') \<and>
           cells h' (buf s) = cells h (buf s) \<and> cells h' (buf m) = cells h (buf m) \<and>
           (\<forall>a<next_free h. cells h' a = cells h a) \<and>
           buf res \<noteq> buf s \<and> buf res \<noteq> buf m"
proof -
  from vs have bs: "buf s < next_free h" by (simp add: valid_array_def)
  from vm have bm: "buf m < next_free h" by (simp add: valid_array_def)
  show ?thesis
    unfolding masked_cells [OF eq bm] using bs bm by simp
qed

theorem masked_stipple_frame_witness:
  "shape demo_source = shape demo_source \<and> valid_array demo_heap demo_source \<and>
   (\<exists>res h'. create_masked_stipple demo_source demo_source (Fin (1/2)) demo_heap = (Inr res, h') \<and>
      cells h' (buf demo_source) = [Fin 0, Fin (1/5), Fin 1, Fin 0] \<and>
      cells h' (buf res) = [Fin 1, Fin 1, Fin 1, Fin 1])"
  using masked_stipple_frame [OF refl demo_arrays_valid(1) demo_arrays_valid(1), of "Fin (1/2)"]
    demo_arrays_valid(1)
  by (auto simp: create_masked_stipple_def ndarray_copy_def alloc_def less_scalar_def
      setitem_bool_def Let_def demo_heap_def demo_source_def)

text \<open>
  C7. When every mask sample lies in [0, 1]: with threshold 0.0 the result equals the
  source at every coordinate, and with threshold 1.0 the result is 1.0 at the coordinates
  whose mask sample is strictly below 1.0 and the source sample at the others.
\<close>

theorem masked_stipple_boundaries:
  assumes s: "shape s = [H, W]" and m: "shape m = [H, W]"
    and vs: "valid_array h s" and vm: "valid_array h m"
    and unit: "\<forall>v \<in> set (cells h (buf m)). in_unit v"
  shows "(\<exists>res h'. create_masked_stipple s m (Fin 0) h = (Inr res, h') \<and> shape res = [H, W] \<and>
            (\<forall>r<H. \<forall>c<W. at2 h' res r c = at2 h s r c)) \<and>
         (\<exists>res h'. create_masked_stipple s m (Fin 1) h = (Inr res, h') \<and> shape res = [H, W] \<and>
            (\<forall>r<H. \<forall>c<W.
               (float_lt (at2 h m r c) (Fin 1) \<longrightarrow> at2 h' res r c = Fin 1) \<and>
               (\<not> float_lt (at2 h m r c) (Fin 1) \<longrightarrow> at2 h' res r c = at2 h s r c)))"
proof
  from vm m have lm: "length (cells h (buf m)) = H * W" by (simp add: valid_array_def)
  have keep: "\<not> float_lt (at2 h m r c) (Fin 0)" if "r < H" "c < W" for r c
  proof -
    from that have "r * W + c < length (cells h (buf m))"
      unfolding lm by (rule flat_index_less)
    then have "at2 h m r c \<in> set (cells h (buf m))" using m by (simp add: at2_def)
    with unit show ?thesis by (simp add: not_lt_zero_in_unit)
  qed
  from masked_at2 [OF s m vs vm, of "Fin 0"] obtain res h' where
    run: "create_masked_stipple s m (Fin 0) h = (Inr res, h')" and sh: "shape res = [H, W]"
    and pt: "\<forall>r<H. \<forall>c<W. at2 h' res r c =
               (if float_lt (at2 h m r c) (Fin 0) then Fin 1 else at2 h s r c)"
    by blast
  from pt keep have "\<forall>r<H. \<forall>c<W. at2 h' res r c = at2 h s r c" by simp
  with run sh show "\<exists>res h'. create_masked_stipple s m (Fin 0) h = (Inr res, h') \<and>
      shape res = [H, W] \<and> (\<forall>r<H. \<forall>c<W. at2 h' res r c = at2 h s r c)" by blast
next
  from masked_at2 [OF s m vs vm, of "Fin 1"] obtain res h' where
    run: "create_masked_stipple s m (Fin 1) h = (Inr res, h')" and sh: "shape res = [H, W]"
    and pt: "\<forall>r<H. \<forall>c<W. at2 h' res r c =
               (if float_lt (at2 h m r c) (Fin 1) then Fin 1 else at2 h s r c)"
    by blast
  from pt have "\<forall>r<H. \<forall>c<W.
               (float_lt (at2 h m r c) (Fin 1) \<longrightarrow> at2 h' res r c = Fin 1) \<and>
               (\<not> float_lt (at2 h m r c) (Fin 1) \<longrightarrow> at2 h' res r c = at2 h s r c)" by simp
  with run sh show "\<exists>res h'. create_masked_stipple s m (Fin 1) h = (Inr res, h') \<and>
      shape res = [H, W] \<and>
            (\<forall>r<H. \<forall>c<W.
               (float_lt (at2 h m r c) (Fin 1) \<longrightarrow> at2 h' res r c = Fin 1) \<and>
               (\<not> float_lt (at2 h m r c) (Fin 1) \<longrightarrow> at2 h' res r c = at2 h s r c))" by blast
qed

theorem masked_stipple_boundaries_witness:
  "shape demo_source = [2, 2] \<and> shape demo_mask = [2, 2] \<and>
   valid_array demo_heap demo_source \<and> valid_array demo_heap demo_mask \<and>
   list_all in_unit (cells demo_heap (buf demo_mask)) \<and>
   (\<exists>res h'. create_masked_stipple demo_source demo_mask (Fin 0) demo_heap = (Inr res, h') \<and>
      shape res = [2, 2] \<and>
      (\<forall>r<2. \<forall>c<2. at2 h' res r c = at2 demo_heap demo_source r c)) \<and>
   (\<exists>res h'. create_masked_stipple demo_source demo_mask (Fin 1) demo_heap = (Inr res, h') \<and>
      shape res = [2, 2] \<and>
      (\<forall>r<2. \<forall>c<2.
         (float_lt (at2 demo_heap demo_mask r c) (Fin 1) \<longrightarrow> at2 h' res r c = Fin 1) \<and>
         (\<not> float_lt (at2 demo_heap demo_mask r c) (Fin 1) \<longrightarrow>
            at2 h' res r c = at2 demo_heap demo_source r c)))"
  using masked_stipple_boundaries [OF demo_arrays_shape demo_arrays_valid demo_mask_unit]
    demo_arrays_shape demo_arrays_valid demo_mask_unit
  by (simp add: list_all_iff)

text \<open>
  C10. Masking the result of a call again, with the same mask and threshold, gives an
  array of the same shape with the same samples.
\<close>

theorem masked_stipple_idempotent:
  assumes eq: "shape s = shape m" and vs: "valid_array h s" and vm: "valid_array h m"
  shows "\<exists>r1 h1 r2 h2.
           create_masked_stipple s m t h = (Inr r1, h1) \<and>
           create_masked_stipple r1 m t h1 = (Inr r2, h2) \<and>
           shape r2 = shape r1 \<and> cells h2 (buf r2) = cells h1 (buf r1) \<and>
           (\<forall>r c. at2 h2 r2 r c = at2 h1 r1 r c)"
proof -
  let ?f = "\<lambda>(b, x). if b then Fin 1 else x"
  let ?sel = "map (\<lambda>v. float_lt v t) (cells h (buf m))"
  let ?r1 = "\<lparr>shape = shape s, buf = next_free h\<rparr>"
  let ?h1 = "h\<lparr>cells := (cells h)(next_free h := map ?f (zip ?sel (cells h (buf s)))),
               next_free := Suc (next_free h)\<rparr>"
  let ?r2 = "\<lparr>shape = shape ?r1, buf = next_free ?h1\<rparr>"
  let ?h2 = "?h1\<lparr>cells := (cells ?h1)(next_free ?h1 :=
                 map ?f (zip (map (\<lambda>v. float_lt v t) (cells ?h1 (buf m))) (cells ?h1 (buf ?r1)))),
               next_free := Suc (next_free ?h1)\<rparr>"
  from vm have bm: "buf m < next_free h" by (simp add: valid_array_def)
  have first: "create_masked_stipple s m t h = (Inr ?r1, ?h1)"
    using masked_cells [OF eq bm] .
  have eq1: "shape ?r1 = shape m" using eq by simp
  have bm1: "buf m < next_free ?h1" using bm by simp
  have second: "create_masked_stipple ?r1 m t ?h1 = (Inr ?r2, ?h2)"
    using masked_cells [OF eq1 bm1] .
  have same: "cells ?h2 (buf ?r2) = cells ?h1 (buf ?r1)"
    using bm by (simp add: overwrite_twice)
  then have "\<forall>r c. at2 ?h2 ?r2 r c = at2 ?h1 ?r1 r c"
    unfolding at2_def by simp
  moreover have "shape ?r2 = shape ?r1" by simp
  ultimately show ?thesis using first second same by blast
qed

theorem masked_stipple_idempotent_witness:
  "shape demo_source = shape demo_mask \<and>
   valid_array demo_heap demo_source \<and> valid_array demo_heap demo_mask \<and>
   (\<exists>r1 h1 r2 h2.
      create_masked_stipple demo_source demo_mask (Fin (1/2)) demo_heap = (Inr r1, h1) \<and>
      create_masked_stipple r1 demo_mask (Fin (1/2)) h1 = (Inr r2, h2) \<and>
      shape r2 = shape r1 \<and> cells h2 (buf r2) = cells h1 (buf r1) \<and>
      (\<forall>r c. at2 h2 r2 r c = at2 h1 r1 r c))"
proof -
  have eq: "shape demo_source = shape demo_mask" by (simp add: demo_arrays_shape)
  from masked_stipple_idempotent [OF eq demo_arrays_valid, of "Fin (1/2)"] eq demo_arrays_valid
  show ?thesis by blast
qed

section \<open>Facts about step 4\<close>

lemma font_paths_nonempty: "p \<in> set (font_paths sys) \<Longrightarrow> p \<noteq> []"
  by (auto simp: font_paths_def split: if_splits)

lemma first_existing_find: "first_existing ex ps = find ex ps"
  by (induction ps) simp_all

lemma first_existing_member: "first_existing ex ps = Some p \<Longrightarrow> p \<in> set ps"
  by (induction ps) (auto split: if_splits)


lemma find_font_path_nonempty: "find_font_path env = Some p \<Longrightarrow> p \<noteq> []"
  unfolding find_font_path_def
  using first_existing_member font_paths_nonempty by blast














lemma bitmap_only_no_path: "find_font_path bitmap_only = None"
  by (simp add: find_font_path_def font_paths_def bitmap_only_def)

lemma fonts_installed_first:
  "find_font_path fonts_installed =
     Some ''/usr/share/fonts/truetype/dejavu/DejaVuSans-Bold.ttf''"
  by (simp add: find_font_path_def font_paths_def fonts_installed_def unreadable_first_def
      bitmap_only_def)

lemma unreadable_first_first:
  "find_font_path unreadable_first =
     Some ''/usr/share/fonts/truetype/dejavu/DejaVuSans-Bold.ttf''"
  by (simp add: find_font_path_def font_paths_def unreadable_first_def bitmap_only_def)

section \<open>Step 4: the claims\<close>




text \<open>
  C4, as amended. The candidate paths are probed in their listed order for existence
  only, and the first one that exists is the only one that is loaded. If it loads, it
  is the active font. If loading it raises \<open>OSError\<close>, or if no candidate exists, no
  further candidate is attempted and the active font is the library's default font
  (none when that cannot be loaded either). Any other exception of the loading call
  leaves the function.
\<close>

theorem font_resolution:
  "find_font_path env = find (path_exists env) (font_paths (system env)) \<and>
   (\<forall>p f. find_font_path env = Some p \<and> truetype env p n = Inr f \<longrightarrow>
      load_font env n = Inr (Some f)) \<and>
   (\<forall>p e. find_font_path env = Some p \<and> truetype env p n = Inl e \<and> exc_class_of e = OSError \<longrightarrow>
      load_font env n = Inr (case load_default env of Inr d \<Rightarrow> Some d | Inl x \<Rightarrow> None)) \<and>
   (\<forall>p e. find_font_path env = Some p \<and> truetype env p n = Inl e \<and> exc_class_of e \<noteq> OSError \<longrightarrow>
      load_font env n = Inl e) \<and>
   (find_font_path env = None \<longrightarrow>
      load_font env n = Inr (case load_default env of Inr d \<Rightarrow> Some d | Inl x \<Rightarrow> None))"
proof (intro conjI allI impI)
  show "find_font_path env = find (path_exists env) (font_paths (system env))"
    by (simp add: find_font_path_def first_existing_find)
next
  fix p f
  assume a: "find_font_path env = Some p \<and> truetype env p n = Inr f"
  then have "p \<noteq> []" using find_font_path_nonempty by blast
  with a show "load_font env n = Inr (Some f)"
    by (simp add: load_font_def try_truetype_def or_default_def)
next
  fix p e
  assume a: "find_font_path env = Some p \<and> truetype env p n = Inl e \<and> exc_class_of e = OSError"
  then have "p \<noteq> []" using find_font_path_nonempty by blast
  with a show "load_font env n =
      Inr (case load_default env of Inr d \<Rightarrow> Some d | Inl x \<Rightarrow> None)"
    by (simp add: load_font_def try_truetype_def or_default_def)
next
  fix p e
  assume a: "find_font_path env = Some p \<and> truetype env p n = Inl e \<and> exc_class_of e \<noteq> OSError"
  then have "p \<noteq> []" using find_font_path_nonempty by blast
  with a show "load_font env n = Inl e"
    by (simp add: load_font_def try_truetype_def)
next
  assume "find_font_path env = None"
  then show "load_font env n =
      Inr (case load_default env of Inr d \<Rightarrow> Some d | Inl x \<Rightarrow> None)"
    by (simp add: load_font_def try_truetype_def or_default_def)
qed

theorem font_resolution_witness:
  "load_font fonts_installed 90 =
     Inr (Some ''/usr/share/fonts/truetype/dejavu/DejaVuSans-Bold.ttf'') \<and>
   load_font unreadable_first 90 = Inr (Some ''default'') \<and>
   load_font fonts_installed 0 = Inl (Exc ValueError ''font size must be greater than 0'') \<and>
   load_font bitmap_only 90 = Inr (Some ''default'')"
proof -
  let ?p = "''/usr/share/fonts/truetype/dejavu/DejaVuSans-Bold.ttf''"
  have a: "truetype fonts_installed ?p 90 = Inr ?p"
    by (simp add: fonts_installed_def)
  have b: "truetype unreadable_first ?p 90 = Inl (Exc OSError ''unknown file format'')"
    by (simp add: unreadable_first_def)
  have c: "truetype fonts_installed ?p 0 =
             Inl (Exc ValueError ''font size must be greater than 0'')"
    by (simp add: fonts_installed_def)
  have d: "load_default unreadable_first = Inr ''default''"
    "load_default bitmap_only = Inr ''default''"
    by (simp_all add: unreadable_first_def bitmap_only_def)
  from font_resolution [of fonts_installed 90] fonts_installed_first a
  have 1: "load_font fonts_installed 90 = Inr (Some ?p)" by blast
  from font_resolution [of unreadable_first 90] unreadable_first_first b
  have "load_font unreadable_first 90 =
          Inr (case load_default unreadable_first of Inr d \<Rightarrow> Some d | Inl x \<Rightarrow> None)"
    by simp
  then have 2: "load_font unreadable_first 90 = Inr (Some ''default'')"
    by (simp add: d)
  from font_resolution [of fonts_installed 0] fonts_installed_first c
  have 3: "load_font fonts_installed 0 =
             Inl (Exc ValueError ''font size must be greater than 0'')" by simp
  from font_resolution [of bitmap_only 90] bitmap_only_no_path
  have "load_font bitmap_only 90 =
          Inr (case load_default bitmap_only of Inr d \<Rightarrow> Some d | Inl x \<Rightarrow> None)"
    by blast
  then have 4: "load_font bitmap_only 90 = Inr (Some ''default'')"
    by (simp add: d)
  from 1 2 3 4 show ?thesis by blast
qed

text \<open>
  C4 as stated fails: where the first candidate exists and cannot be loaded while the
  second one exists and loads, the specification's rule makes the second candidate the
  active font, and the code uses the default font.
\<close>

theorem later_candidates_not_tried:
  "spec_active_font unreadable_first 90 (font_paths (system unreadable_first)) =
     Some ''/usr/share/fonts/truetype/liberation/LiberationSans-Bold.ttf'' \<and>
   load_font unreadable_first 90 = Inr (Some ''default'') \<and>
   load_font unreadable_first 90 \<noteq>
     Inr (spec_active_font unreadable_first 90 (font_paths (system unreadable_first)))"
  by code_simp






section \<open>The four-panel figure: the claim\<close>

lemma panel_message_mentions:
  "sublist (name @ ''_img'') (panel_message name s e)"
  "sublist (str_tuple s) (panel_message name s e)"
  "sublist (str_tuple e) (panel_message name s e)"
proof -
  show "sublist (name @ ''_img'') (panel_message name s e)"
    unfolding panel_message_def
    using sublist_mid [of "name @ ''_img''" "''All images must have the same shape. ''"
        "'' shape: '' @ str_tuple s @ '', expected: '' @ str_tuple e"]
    by simp
  show "sublist (str_tuple s) (panel_message name s e)"
    unfolding panel_message_def
    using sublist_mid [of "str_tuple s"
        "''All images must have the same shape. '' @ name @ ''_img shape: ''"
        "'', expected: '' @ str_tuple e"]
    by simp
  show "sublist (str_tuple e) (panel_message name s e)"
    unfolding panel_message_def
    using sublist_mid [of "str_tuple e"
        "''All images must have the same shape. '' @ name @ ''_img shape: '' @ str_tuple s @
         '', expected: ''" "[]"]
    by simp
qed

lemma check_shapes_none:
  "check_shapes e ps = None \<longleftrightarrow> (\<forall>(name, img) \<in> set ps. shape img = e)"
  by (induction ps) (auto split: if_splits)

lemma check_shapes_some:
  "check_shapes e ps = Some err \<Longrightarrow>
   \<exists>name img. (name, img) \<in> set ps \<and> shape img \<noteq> e \<and>
     err = Exc ValueError (panel_message name (shape img) e)"
proof (induction ps)
  case Nil
  then show ?case by simp
next
  case (Cons x ps)
  obtain name img where x: "x = (name, img)" by (cases x)
  show ?case
  proof (cases "shape img = e")
    case True
    with Cons.prems x have "check_shapes e ps = Some err" by simp
    from Cons.IH [OF this] show ?thesis by auto
  next
    case False
    with Cons.prems x have "err = Exc ValueError (panel_message name (shape img) e)"
      by simp
    with False x show ?thesis by auto
  qed
qed

lemma str_nat_2: "str_nat 2 = ''2''"
  by (simp add: str_nat.simps digit_char_def)

text \<open>
  C8. \<open>create_statistics_meme\<close> compares the shape of every panel with the shape of the
  first one before anything is laid out. If the four shapes are equal, the figure is
  plotted. If one differs, the call raises a \<open>ValueError\<close> whose message names a panel
  of another shape and contains the text of that shape and of the expected shape; the
  plotting library was not called and the world outside is as it was.
\<close>

theorem meme_shape_validation:
  "(shape stipple = shape original \<and> shape block = shape original \<and>
    shape masked = shape original \<longrightarrow>
      create_statistics_meme plot h original stipple block masked path dpi bg w =
        plot h [original, stipple, block, masked] path dpi bg w) \<and>
   (\<not> (shape stipple = shape original \<and> shape block = shape original \<and>
        shape masked = shape original) \<longrightarrow>
      (\<exists>name img.
         (name, img) \<in> set [(''stipple'', stipple), (''block_letter'', block),
                             (''masked_stipple'', masked)] \<and>
         shape img \<noteq> shape original \<and>
         create_statistics_meme plot h original stipple block masked path dpi bg w =
           (Inl (Exc ValueError (panel_message name (shape img) (shape original))), w) \<and>
         sublist (name @ ''_img'') (panel_message name (shape img) (shape original)) \<and>
         sublist (str_tuple (shape img)) (panel_message name (shape img) (shape original)) \<and>
         sublist (str_tuple (shape original))
           (panel_message name (shape img) (shape original))))"
proof (intro conjI impI)
  assume "shape stipple = shape original \<and> shape block = shape original \<and>
    shape masked = shape original"
  then show "create_statistics_meme plot h original stipple block masked path dpi bg w =
        plot h [original, stipple, block, masked] path dpi bg w"
    by (simp add: create_statistics_meme_def)
next
  let ?ps = "[(''original'', original), (''stipple'', stipple), (''block_letter'', block),
              (''masked_stipple'', masked)]"
  assume no: "\<not> (shape stipple = shape original \<and> shape block = shape original \<and>
        shape masked = shape original)"
  then have "check_shapes (shape original) ?ps \<noteq> None"
    unfolding check_shapes_none by auto
  then obtain err where err: "check_shapes (shape original) ?ps = Some err" by blast
  from check_shapes_some [OF err] obtain name img where
    mem: "(name, img) \<in> set ?ps" and diff: "shape img \<noteq> shape original"
    and e: "err = Exc ValueError (panel_message name (shape img) (shape original))"
    by blast
  from mem diff have mem': "(name, img) \<in> set [(''stipple'', stipple),
      (''block_letter'', block), (''masked_stipple'', masked)]" by auto
  have run: "create_statistics_meme plot h original stipple block masked path dpi bg w =
           (Inl (Exc ValueError (panel_message name (shape img) (shape original))), w)"
    using err e by (simp add: create_statistics_meme_def)
  from mem' diff run panel_message_mentions [where name = name and s = "shape img" and e = "shape original"]
  show "\<exists>name img.
         (name, img) \<in> set [(''stipple'', stipple), (''block_letter'', block),
                             (''masked_stipple'', masked)] \<and>
         shape img \<noteq> shape original \<and>
         create_statistics_meme plot h original stipple block masked path dpi bg w =
           (Inl (Exc ValueError (panel_message name (shape img) (shape original))), w) \<and>
         sublist (name @ ''_img'') (panel_message name (shape img) (shape original)) \<and>
         sublist (str_tuple (shape img)) (panel_message name (shape img) (shape original)) \<and>
         sublist (str_tuple (shape original))
           (panel_message name (shape img) (shape original))"
    by blast
qed

theorem meme_shape_validation_witness:
  "create_statistics_meme record_plot demo_heap demo_source demo_mask demo_mask demo_source
     ''meme.png'' 150 ''white'' [] = (Inr (), [''meme.png'']) \<and>
   create_statistics_meme record_plot demo_heap demo_source demo_mask ten_by_twelve demo_source
     ''meme.png'' 150 ''white'' [] =
     (Inl (Exc ValueError
        ''All images must have the same shape. block_letter_img shape: (10, 12), expected: (2, 2)''),
      [])"
proof -
  have same: "shape demo_mask = shape demo_source \<and> shape demo_mask = shape demo_source \<and>
    shape demo_source = shape demo_source"
    by (simp add: demo_mask_def demo_source_def)
  from meme_shape_validation [of demo_mask demo_source demo_mask demo_source record_plot
      demo_heap "''meme.png''" 150 "''white''" "[]"] same
  have 1: "create_statistics_meme record_plot demo_heap demo_source demo_mask demo_mask
     demo_source ''meme.png'' 150 ''white'' [] = (Inr (), [''meme.png''])"
    by (simp add: record_plot_def)
  have differ: "\<not> (shape demo_mask = shape demo_source \<and>
      shape ten_by_twelve = shape demo_source \<and> shape demo_source = shape demo_source)"
    by (simp add: demo_mask_def demo_source_def ten_by_twelve_def)
  from meme_shape_validation [of demo_mask demo_source ten_by_twelve demo_source record_plot
      demo_heap "''meme.png''" 150 "''white''" "[]"] differ
  obtain name img where
    mem: "(name, img) \<in> set [(''stipple'', demo_mask), (''block_letter'', ten_by_twelve),
                             (''masked_stipple'', demo_source)]"
    and ne: "shape img \<noteq> shape demo_source"
    and run: "create_statistics_meme record_plot demo_heap demo_source demo_mask ten_by_twelve
       demo_source ''meme.png'' 150 ''white'' [] =
         (Inl (Exc ValueError (panel_message name (shape img) (shape demo_source))), [])"
    by blast
  from mem ne have "name = ''block_letter'' \<and> img = ten_by_twelve"
    by (auto simp: demo_mask_def demo_source_def)
  with run have 2: "create_statistics_meme record_plot demo_heap demo_source demo_mask
     ten_by_twelve demo_source ''meme.png'' 150 ''white'' [] =
     (Inl (Exc ValueError
        ''All images must have the same shape. block_letter_img shape: (10, 12), expected: (2, 2)''),
      [])"
    by (simp add: panel_message_def ten_by_twelve_def demo_source_def str_nat_10 str_nat_12
        str_nat_2)
  from 1 2 show ?thesis by blast
qed

end
